theory Spec2Isabelle
  imports Complex_Main
begin

section \<open>JavaScript numbers\<close>

text \<open>
  The program computes with JavaScript numbers. A number is modelled as an exact rational
  or one of the three special values; the two zeros are identified. Finite arithmetic is
  exact in this model: the runtime's IEEE doubles agree with it as long as every
  intermediate minor-unit magnitude stays below \<open>2 ^ 53\<close>, which is the range the
  development speaks about. The special values behave as in the language, and they matter:
  the string \<open>Infinity\<close> is a numeric literal.
\<close>

datatype jsnum = Fin rat | PosInf | NegInf | NaN

fun jneg :: "jsnum \<Rightarrow> jsnum" where
  "jneg (Fin a) = Fin (- a)"
| "jneg PosInf = NegInf"
| "jneg NegInf = PosInf"
| "jneg NaN = NaN"

text \<open>The operator \<open>+\<close> on numbers.\<close>

fun jadd :: "jsnum \<Rightarrow> jsnum \<Rightarrow> jsnum" where
  "jadd (Fin a) (Fin b) = Fin (a + b)"
| "jadd NaN _ = NaN"
| "jadd _ NaN = NaN"
| "jadd PosInf NegInf = NaN"
| "jadd NegInf PosInf = NaN"
| "jadd PosInf _ = PosInf"
| "jadd NegInf _ = NegInf"
| "jadd _ PosInf = PosInf"
| "jadd _ NegInf = NegInf"

text \<open>The operator \<open>-\<close>.\<close>

definition jsub :: "jsnum \<Rightarrow> jsnum \<Rightarrow> jsnum" where
  "jsub a b = jadd a (jneg b)"

text \<open>The sign of a number that is not \<open>NaN\<close>: \<open>-1\<close>, \<open>0\<close> or \<open>1\<close>.\<close>

fun jsign :: "jsnum \<Rightarrow> int" where
  "jsign (Fin a) = (if a < 0 then - 1 else if a = 0 then 0 else 1)"
| "jsign PosInf = 1"
| "jsign NegInf = - 1"
| "jsign NaN = 0"

text \<open>The operator \<open>*\<close>: an infinity times zero is \<open>NaN\<close>.\<close>

fun jmul :: "jsnum \<Rightarrow> jsnum \<Rightarrow> jsnum" where
  "jmul (Fin a) (Fin b) = Fin (a * b)"
| "jmul NaN _ = NaN"
| "jmul _ NaN = NaN"
| "jmul a b =
     (if jsign a * jsign b = 0 then NaN else if jsign a * jsign b > 0 then PosInf else NegInf)"

text \<open>
  The operator \<open>/\<close>. The program only divides by \<open>100\<close> and by a positive part count;
  a zero divisor is read as \<open>+0\<close>.
\<close>

fun jdiv :: "jsnum \<Rightarrow> jsnum \<Rightarrow> jsnum" where
  "jdiv (Fin a) (Fin b) =
     (if b \<noteq> 0 then Fin (a / b) else if a = 0 then NaN else if a > 0 then PosInf else NegInf)"
| "jdiv NaN _ = NaN"
| "jdiv _ NaN = NaN"
| "jdiv (Fin a) _ = Fin 0"
| "jdiv a (Fin b) = (if jsign a * (if b < 0 then - 1 else 1) > 0 then PosInf else NegInf)"
| "jdiv _ _ = NaN"

text \<open>The comparisons \<open><\<close> and \<open>>\<close>, false whenever an operand is \<open>NaN\<close>.\<close>

fun jless :: "jsnum \<Rightarrow> jsnum \<Rightarrow> bool" where
  "jless (Fin a) (Fin b) = (a < b)"
| "jless NaN _ = False"
| "jless _ NaN = False"
| "jless NegInf NegInf = False"
| "jless NegInf _ = True"
| "jless _ NegInf = False"
| "jless PosInf _ = False"
| "jless _ PosInf = True"

definition jgreater :: "jsnum \<Rightarrow> jsnum \<Rightarrow> bool" where
  "jgreater a b = jless b a"


fun Math_floor :: "jsnum \<Rightarrow> jsnum" where
  "Math_floor (Fin a) = Fin (of_int \<lfloor>a\<rfloor>)"
| "Math_floor x = x"

text \<open>\<open>Math.round\<close> rounds to the nearest integer, a tie towards \<open>+\<infinity>\<close>.\<close>

fun Math_round :: "jsnum \<Rightarrow> jsnum" where
  "Math_round (Fin a) = Fin (of_int \<lfloor>a + 1 / 2\<rfloor>)"
| "Math_round x = x"



section \<open>Strings and numeric literals\<close>

text \<open>
  A string of the program is a \<^typ>\<open>string\<close>; a character stands for the code unit of
  the same number, so the strings covered are those of code units below 256. Of the
  white space and line terminator characters of the language, these are the ones in
  that range: tab, line feed, vertical tab, form feed, carriage return, space and the
  no-break space.
\<close>

definition isWhiteSpace :: "char \<Rightarrow> bool" where
  "isWhiteSpace c = (of_char c \<in> {9, 10, 11, 12, 13, 32, 160 :: nat})"

text \<open>\<open>String.prototype.trim\<close>.\<close>

definition trim :: "string \<Rightarrow> string" where
  "trim s = rev (dropWhile isWhiteSpace (rev (dropWhile isWhiteSpace s)))"

definition isDigit :: "char \<Rightarrow> bool" where
  "isDigit c = (48 \<le> (of_char c :: nat) \<and> (of_char c :: nat) \<le> 57)"

definition digitVal :: "char \<Rightarrow> nat" where
  "digitVal c = of_char c - 48"

text \<open>The mathematical value of a sequence of decimal digits.\<close>

definition digitsVal :: "string \<Rightarrow> nat" where
  "digitsVal ds = foldl (\<lambda>acc c. 10 * acc + digitVal c) 0 ds"

text \<open>\<open>10\<close> to an integer power, as a rational.\<close>

definition pow10 :: "int \<Rightarrow> rat" where
  "pow10 e = (if 0 \<le> e then 10 ^ nat e else 1 / 10 ^ nat (- e))"

text \<open>
  The optional \<open>ExponentPart\<close> at the head of a string: the exponent and the rest of the
  string. Where no well-formed exponent part stands, nothing is consumed.
\<close>

definition exponentPart :: "string \<Rightarrow> int \<times> string" where
  "exponentPart s =
     (case s of
        [] \<Rightarrow> (0, s)
      | c # t \<Rightarrow>
          if c = CHR ''e'' \<or> c = CHR ''E'' then
            (let sg = (case t of [] \<Rightarrow> 1 | d # u \<Rightarrow> if d = CHR ''-'' then - 1 else 1);
                 u = (case t of [] \<Rightarrow> []
                      | d # u \<Rightarrow> if d = CHR ''+'' \<or> d = CHR ''-'' then u else t);
                 ds = takeWhile isDigit u
             in if ds = [] then (0, s) else (sg * int (digitsVal ds), dropWhile isDigit u))
          else (0, s))"

text \<open>
  The longest prefix of a string that is a \<open>StrUnsignedDecimalLiteral\<close>
  (\<open>Infinity\<close>, or digits with an optional fraction and an optional exponent part, or a
  fraction that starts with the dot), with its value and the rest of the string.
\<close>

definition strUnsignedDecimalLiteral :: "string \<Rightarrow> (jsnum \<times> string) option" where
  "strUnsignedDecimalLiteral s =
     (if take 8 s = ''Infinity'' then Some (PosInf, drop 8 s)
      else
        let ip = takeWhile isDigit s;
            r1 = dropWhile isDigit s;
            dot = (case r1 of [] \<Rightarrow> False | c # t \<Rightarrow> c = CHR ''.'');
            fp = (if dot then takeWhile isDigit (tl r1) else []);
            r2 = (if dot then dropWhile isDigit (tl r1) else r1)
        in if ip = [] \<and> fp = [] then None
           else
             (case exponentPart r2 of
                (e, r3) \<Rightarrow>
                  Some (Fin ((of_nat (digitsVal ip) + of_nat (digitsVal fp) / 10 ^ length fp)
                             * pow10 e), r3)))"

text \<open>The same with the optional sign: the longest \<open>StrDecimalLiteral\<close> prefix.\<close>

definition strDecimalLiteral :: "string \<Rightarrow> (jsnum \<times> string) option" where
  "strDecimalLiteral s =
     (case s of
        [] \<Rightarrow> None
      | c # t \<Rightarrow>
          if c = CHR ''+'' then strUnsignedDecimalLiteral t
          else if c = CHR ''-'' then map_option (\<lambda>(v, r). (jneg v, r)) (strUnsignedDecimalLiteral t)
          else strUnsignedDecimalLiteral s)"

text \<open>\<open>parseFloat\<close>: leading white space is skipped, the longest literal prefix is read.\<close>

definition parseFloat :: "string \<Rightarrow> jsnum" where
  "parseFloat s =
     (case strDecimalLiteral (dropWhile isWhiteSpace s) of None \<Rightarrow> NaN | Some (v, r) \<Rightarrow> v)"

text \<open>A binary, octal or hexadecimal integer literal: \<open>0b\<close>, \<open>0o\<close> or \<open>0x\<close> and digits.\<close>

definition isHexDigit :: "char \<Rightarrow> bool" where
  "isHexDigit c =
     (isDigit c \<or> (let n = (of_char c :: nat) in (65 \<le> n \<and> n \<le> 70) \<or> (97 \<le> n \<and> n \<le> 102)))"

definition nonDecimalIntegerLiteral :: "string \<Rightarrow> bool" where
  "nonDecimalIntegerLiteral s =
     (case s of
        z # p # ds \<Rightarrow>
          z = CHR ''0'' \<and> ds \<noteq> [] \<and>
          (if p = CHR ''b'' \<or> p = CHR ''B'' then list_all (\<lambda>c. c = CHR ''0'' \<or> c = CHR ''1'') ds
           else if p = CHR ''o'' \<or> p = CHR ''O''
             then list_all (\<lambda>c. 48 \<le> (of_char c :: nat) \<and> (of_char c :: nat) \<le> 55) ds
           else if p = CHR ''x'' \<or> p = CHR ''X'' then list_all isHexDigit ds
           else False)
      | _ \<Rightarrow> False)"

text \<open>
  \<open>isNaN\<close> of a string: the string is converted to a number, which is \<open>NaN\<close> unless the
  trimmed string is empty or, as a whole, a decimal or non-decimal literal.
\<close>

definition isNaN :: "string \<Rightarrow> bool" where
  "isNaN s =
     (let t = trim s
      in t \<noteq> [] \<and>
         (case strDecimalLiteral t of
            Some (v, []) \<Rightarrow> False
          | _ \<Rightarrow> \<not> nonDecimalIntegerLiteral t))"

section \<open>The Decimal module\<close>

text \<open>
  \<open>toCents\<close>: the argument, as a string, is trimmed; an empty or non-numeric string
  gives \<open>0\<close>; otherwise the parsed number times \<open>100\<close> is rounded.
\<close>

definition toCents :: "string \<Rightarrow> jsnum" where
  "toCents decimalStr =
     (let str = trim decimalStr
      in if str = [] \<or> isNaN str then Fin 0
         else Math_round (jmul (parseFloat str) (Fin 100)))"

text \<open>The decimal digits of a natural number.\<close>

definition digitChar :: "nat \<Rightarrow> char" where
  "digitChar d = char_of (48 + d)"

fun digits :: "nat \<Rightarrow> string" where
  "digits n = (if n < 10 then [digitChar n] else digits (n div 10) @ [digitChar (n mod 10)])"

declare digits.simps [simp del]

text \<open>
  \<open>Number.prototype.toFixed\<close> with two fraction digits: a value that is not finite prints
  as its name; otherwise the sign is split off, \<open>n\<close> is the integer nearest to a hundred
  times the magnitude (the larger one on a tie), its digits are padded to three, and the
  dot goes before the last two. (The switch to exponent notation at \<open>10 ^ 21\<close> lies
  outside the range described above.)
\<close>

definition toFixed2 :: "jsnum \<Rightarrow> string" where
  "toFixed2 x =
     (case x of
        NaN \<Rightarrow> ''NaN''
      | PosInf \<Rightarrow> ''Infinity''
      | NegInf \<Rightarrow> ''-Infinity''
      | Fin r \<Rightarrow>
          let s = (if r < 0 then ''-'' else '''');
              n = nat \<lfloor>\<bar>r\<bar> * 100 + 1 / 2\<rfloor>;
              m = (if n = 0 then ''0'' else digits n);
              m = (if length m \<le> 2 then replicate (3 - length m) CHR ''0'' @ m else m);
              k = length m
          in s @ take (k - 2) m @ ''.'' @ drop (k - 2) m)"

definition fromCents :: "jsnum \<Rightarrow> string" where
  "fromCents cents = toFixed2 (jdiv cents (Fin 100))"

text \<open>
  The loop \<open>for (let i = 0; i < remainder; i++) shares[i]++\<close>. One step increments the
  \<open>i\<close>-th share; past the end of the array the language reads \<open>undefined\<close>, whose
  increment is \<open>NaN\<close>, and the array grows by that element. The number of steps is the
  number of naturals below the remainder; the remainder is never \<open>+\<infinity>\<close>
  (see \<open>remainder_cases\<close> below).
\<close>

definition incrementShare :: "jsnum list \<Rightarrow> nat \<Rightarrow> jsnum list" where
  "incrementShare shares i =
     (if i < length shares then shares[i := jadd (shares ! i) (Fin 1)] else shares @ [NaN])"

fun stepsBelow :: "jsnum \<Rightarrow> nat" where
  "stepsBelow (Fin r) = nat \<lceil>r\<rceil>"
| "stepsBelow _ = 0"

text \<open>
  \<open>divideEqually(amount, parts)\<close>: the amount is a decimal amount, the result the list
  of the shares as decimal strings.
\<close>

definition divideEqually :: "string \<Rightarrow> int \<Rightarrow> string list" where
  "divideEqually amount parts =
     (if parts \<le> 0 then []
      else
        let totalCents = toCents amount;
            baseCents = Math_floor (jdiv totalCents (Fin (of_int parts)));
            remainder = jsub totalCents (jmul baseCents (Fin (of_int parts)));
            shares = replicate (nat parts) baseCents;
            shares = foldl incrementShare shares [0..<stepsBelow remainder]
        in map fromCents shares)"

section \<open>The Calculator module\<close>


record 'id expense =
  amount :: string
  paidBy :: 'id
  splitBetween :: "'id list"

















text \<open>
  \<open>Array.prototype.sort\<close> with a comparator: the sort is stable, and a comparator result
  that is \<open>NaN\<close> counts as \<open>0\<close>. An element moves behind another one only when the
  comparator says it is greater.
\<close>

fun insertSorted :: "('a \<Rightarrow> 'a \<Rightarrow> jsnum) \<Rightarrow> 'a \<Rightarrow> 'a list \<Rightarrow> 'a list" where
  "insertSorted cmp x [] = [x]"
| "insertSorted cmp x (y # ys) =
     (if jgreater (cmp x y) (Fin 0) then y # insertSorted cmp x ys else x # y # ys)"

definition sortBy :: "('a \<Rightarrow> 'a \<Rightarrow> jsnum) \<Rightarrow> 'a list \<Rightarrow> 'a list" where
  "sortBy cmp xs = foldr (insertSorted cmp) xs []"









section \<open>Auxiliary notions for the proofs\<close>





















section \<open>Decimal strings and minor units\<close>





































lemma dropWhile_all: "list_all P xs \<Longrightarrow> dropWhile P xs = []"
  by (induction xs) simp_all

lemma trim_all_ws: "list_all isWhiteSpace s \<Longrightarrow> trim s = []"
  by (simp add: trim_def dropWhile_all)

lemma strip_tail_hd:
  "u = [] \<or> \<not> P (hd u) \<Longrightarrow> rev (dropWhile P (rev u)) = [] \<or> \<not> P (hd (rev (dropWhile P (rev u))))"
proof (induction u rule: rev_induct)
  case Nil
  show ?case by simp
next
  case (snoc x xs)
  show ?case
  proof (cases "P x")
    case True
    from snoc.prems have "xs = [] \<or> \<not> P (hd xs)" by (cases xs) simp_all
    from snoc.IH [OF this] True show ?thesis by simp
  next
    case False
    with snoc.prems show ?thesis by simp
  qed
qed

lemma dropWhile_hd: "dropWhile P xs = [] \<or> \<not> P (hd (dropWhile P xs))"
  by (induction xs) simp_all

lemma trim_hd: "trim s = [] \<or> \<not> isWhiteSpace (hd (trim s))"
  unfolding trim_def by (rule strip_tail_hd) (rule dropWhile_hd)

lemma dropWhile_trim: "dropWhile isWhiteSpace (trim s) = trim s"
  using trim_hd [of s] by (cases "trim s") simp_all

lemma trim_trim: "trim (trim s) = trim s"
proof -
  have "rev (trim s) = dropWhile isWhiteSpace (rev (dropWhile isWhiteSpace s))"
    by (simp add: trim_def)
  then have "dropWhile isWhiteSpace (rev (trim s)) = rev (trim s)"
    by (simp only: dropWhile_idem)
  then have "rev (dropWhile isWhiteSpace (rev (trim s))) = trim s" by simp
  then show ?thesis
    unfolding trim_def [of "trim s"] by (simp only: dropWhile_trim)
qed

lemma isNaN_trim: "isNaN (trim s) = isNaN s"
  by (simp add: isNaN_def trim_trim)

section \<open>Claims about the Decimal module\<close>



text \<open>
  C6, as stated: \<open>divideEqually\<close> called with \<open>10\<close> and \<open>3\<close>. The function reads its
  first argument as a decimal amount (\<open>String(10)\<close> is \<open>10\<close>, a thousand minor units) and
  returns decimal strings, so the result is not \<open>[4, 3, 3]\<close>, in minor units either.
\<close>

theorem divideEqually_10_3_decimal:
  "divideEqually ''10'' 3 = [''3.34'', ''3.33'', ''3.33''] \<and>
   map toCents (divideEqually ''10'' 3) \<noteq> [Fin 4, Fin 3, Fin 3]"
  by code_simp

text \<open>
  C6, amended: an amount of ten minor units, \<open>0.10\<close>, divided in three gives the shares
  \<open>0.04\<close>, \<open>0.03\<close>, \<open>0.03\<close>, that is \<open>[4, 3, 3]\<close> in minor units: the ten units are
  preserved and the one remainder unit goes to the first share.
\<close>

theorem divideEqually_ten_cents:
  "divideEqually ''0.10'' 3 = [''0.04'', ''0.03'', ''0.03''] \<and>
   map toCents (divideEqually ''0.10'' 3) = [Fin 4, Fin 3, Fin 3]"
  by code_simp

text \<open>
  C7. For every amount and every part count that is zero or negative,
  \<open>divideEqually\<close> returns the empty list: the guard returns before the division by the
  part count is reached.
\<close>

theorem divideEqually_nonpositive_parts:
  "parts \<le> 0 \<Longrightarrow> divideEqually a parts = []"
  by (simp add: divideEqually_def)

theorem divideEqually_nonpositive_parts_witness:
  "(0 :: int) \<le> 0 \<and> divideEqually ''12.50'' 0 = [] \<and> divideEqually ''12.50'' (- 2) = []"
  using divideEqually_nonpositive_parts [of 0 "''12.50''"]
    divideEqually_nonpositive_parts [of "- 2" "''12.50''"]
  by simp

text \<open>
  C9. \<open>toCents\<close> of the empty string, of a string of white space only, or of a string
  whose conversion to a number is \<open>NaN\<close> is exactly \<open>0\<close>; \<open>toCents\<close> is a total function,
  no input makes it fail.
\<close>

theorem toCents_non_numeric:
  "s = [] \<or> list_all isWhiteSpace s \<or> isNaN s \<Longrightarrow> toCents s = Fin 0"
  by (auto simp: toCents_def Let_def isNaN_trim trim_all_ws)

theorem toCents_non_numeric_witness:
  "toCents [] = Fin 0 \<and> list_all isWhiteSpace ''   '' \<and> toCents ''   '' = Fin 0 \<and>
   isNaN ''12abc'' \<and> toCents ''12abc'' = Fin 0"
proof -
  have w: "list_all isWhiteSpace ''   ''" by code_simp
  have n: "isNaN ''12abc''" by code_simp
  show ?thesis
    using toCents_non_numeric [of "[]"] toCents_non_numeric [of "''   ''"]
      toCents_non_numeric [of "''12abc''"] w n
    by simp
qed

section \<open>What \<open>toCents\<close> returns\<close>

lemma strUnsigned_not_NaN: "strUnsignedDecimalLiteral s = Some (v, r) \<Longrightarrow> v = PosInf \<or> (\<exists>q. v = Fin q)"
  by (auto simp: strUnsignedDecimalLiteral_def Let_def split: if_splits prod.splits)

lemma strDecimal_not_NaN: "strDecimalLiteral s = Some (v, r) \<Longrightarrow> v \<noteq> NaN"
  by (cases s) (auto simp: strDecimalLiteral_def split: if_splits dest!: strUnsigned_not_NaN)

lemma nonDecimal_parses:
  assumes "nonDecimalIntegerLiteral t"
  shows "\<exists>q r. strDecimalLiteral t = Some (Fin q, r)"
proof -
  from assms obtain p ds where t: "t = CHR ''0'' # p # ds"
    by (auto simp: nonDecimalIntegerLiteral_def split: list.splits)
  have d: "isDigit CHR ''0''" by (simp add: isDigit_def)
  have "take 8 t \<noteq> ''Infinity''" by (simp add: t)
  moreover have "takeWhile isDigit t \<noteq> []" by (simp add: t d)
  ultimately have "\<exists>q r. strUnsignedDecimalLiteral t = Some (Fin q, r)"
    by (simp add: strUnsignedDecimalLiteral_def Let_def split: prod.splits)
  then show ?thesis by (simp add: strDecimalLiteral_def t)
qed

lemma parseFloat_numeric:
  assumes "t \<noteq> []" "\<not> isNaN t" "trim t = t"
  shows "parseFloat t \<noteq> NaN"
proof -
  have dw: "dropWhile isWhiteSpace t = t" using dropWhile_trim [of t] assms(3) by simp
  from assms have "(\<exists>v. strDecimalLiteral t = Some (v, [])) \<or> nonDecimalIntegerLiteral t"
    by (auto simp: isNaN_def split: option.splits prod.splits list.splits)
  then obtain v r where "strDecimalLiteral t = Some (v, r)"
    using nonDecimal_parses by blast
  then show ?thesis using strDecimal_not_NaN [of t v r] by (simp add: parseFloat_def dw)
qed

lemma toCents_cases:
  "toCents s = PosInf \<or> toCents s = NegInf \<or> (\<exists>k. toCents s = Fin (of_int k))"
proof (cases "trim s = [] \<or> isNaN (trim s)")
  case True
  then have "toCents s = Fin (of_int 0)" by (simp add: toCents_def Let_def)
  then show ?thesis by blast
next
  case False
  then have "parseFloat (trim s) \<noteq> NaN" by (intro parseFloat_numeric) (simp_all add: trim_trim)
  moreover have "toCents s = Math_round (jmul (parseFloat (trim s)) (Fin 100))"
    using False by (simp add: toCents_def Let_def)
  ultimately show ?thesis by (cases "parseFloat (trim s)") auto
qed


section \<open>Canonical decimal strings\<close>







text \<open>The remainder computed by \<open>divideEqually\<close> is a whole number below the part count or \<open>NaN\<close>.\<close>

lemma remainder_cases:
  assumes n: "0 < parts"
  shows "jsub (toCents a) (jmul (Math_floor (jdiv (toCents a) (Fin (of_int parts)))) (Fin (of_int parts))) = NaN
    \<or> (\<exists>k. 0 \<le> k \<and> k < parts \<and>
          jsub (toCents a) (jmul (Math_floor (jdiv (toCents a) (Fin (of_int parts)))) (Fin (of_int parts)))
            = Fin (of_int k))"
proof -
  consider "toCents a = PosInf" | "toCents a = NegInf" | tc where "toCents a = Fin (of_int tc)"
    using toCents_cases by blast
  then show ?thesis
  proof cases
    case 1
    with n show ?thesis by (simp add: jsub_def)
  next
    case 2
    with n show ?thesis by (simp add: jsub_def)
  next
    case 3
    have n0: "(of_int parts :: rat) \<noteq> 0" using n by simp
    have "(of_int tc :: rat) - of_int (tc div parts) * of_int parts = of_int (tc mod parts)"
      by (simp add: minus_div_mult_eq_mod [symmetric] del: minus_div_mult_eq_mod)
    then have "jsub (toCents a) (jmul (Math_floor (jdiv (toCents a) (Fin (of_int parts)))) (Fin (of_int parts)))
        = Fin (of_int (tc mod parts))"
      using n0 by (simp add: 3 jsub_def floor_divide_of_int_eq)
    moreover have "0 \<le> tc mod parts" "tc mod parts < parts" using n by simp_all
    ultimately show ?thesis by blast
  qed
qed

section \<open>The object of shares\<close>







section \<open>The balance map\<close>


subsection \<open>The keys of the balance map\<close>








subsection \<open>Failure\<close>





















section \<open>The matching loop\<close>



















subsection \<open>Sorting rearranges\<close>

lemma insertSorted_length: "length (insertSorted cmp x ys) = Suc (length ys)"
  by (induction ys) simp_all




lemma sortBy_length: "length (sortBy cmp xs) = length xs"
  by (induction xs) (simp_all add: sortBy_def insertSorted_length)




subsection \<open>Creditors and debtors of integral balances\<close>












section \<open>Claims about the round trip of amounts\<close>




section \<open>Claims about the balances\<close>







section \<open>Claims about the settlements\<close>






end
